theory Spec2Isabelle
  imports Main "HOL-Library.Word"
begin

section \<open>Values of the image service\<close>

text \<open>
  A shallow embedding of \<^verbatim>\<open>src/services/image.js\<close>. A Node.js \<^verbatim>\<open>Buffer\<close> is a list of
  bytes and \<^verbatim>\<open>byteLength\<close> is its length. JavaScript strings are modelled as lists of
  8-bit characters, which is exact for the ASCII file extensions the service handles.
\<close>

type_synonym buffer = "8 word list"

text \<open>
  A thrown JavaScript exception. \<open>TypeError p\<close> is the error raised when property \<open>p\<close>
  is read on \<^verbatim>\<open>undefined\<close>; \<open>Thrown st\<close> is an exception raised inside a library, with
  \<open>st\<close> the text of its \<^verbatim>\<open>stack\<close> property.
\<close>

datatype js_error = TypeError string | Thrown string

text \<open>
  What \<^verbatim>\<open>getImageType\<close> can return: an object with an \<^verbatim>\<open>ext\<close> field (the literal
  \<^verbatim>\<open>{ext: 'svg'}\<close> has no \<^verbatim>\<open>mime\<close> field, the object of the image-type package has one),
  or a bare string.
\<close>

datatype image_format = FormatObject string "string option" | FormatString string

text \<open>The property read \<^verbatim>\<open>imageFormat.ext\<close>; on a string primitive it is \<^verbatim>\<open>undefined\<close>.\<close>

fun format_ext :: "image_format \<Rightarrow> string option" where
  "format_ext (FormatObject e m) = Some e"
| "format_ext (FormatString s) = None"

text \<open>JavaScript truthiness of such a value: objects are truthy, a string unless empty.\<close>

fun truthy :: "image_format \<Rightarrow> bool" where
  "truthy (FormatObject e m) = True"
| "truthy (FormatString s) = (s \<noteq> [])"

text \<open>\<^verbatim>\<open>Array.prototype.includes\<close> on an array of strings; \<^verbatim>\<open>undefined\<close> is in none.\<close>

definition js_includes :: "string list \<Rightarrow> string option \<Rightarrow> bool" where
  "js_includes xs v = (case v of None \<Rightarrow> False | Some x \<Rightarrow> x \<in> set xs)"

text \<open>\<^verbatim>\<open>String.prototype.toLowerCase\<close> on ASCII strings.\<close>

definition toLowerCase_char :: "char \<Rightarrow> char" where
  "toLowerCase_char c =
     (case map_of (zip ''ABCDEFGHIJKLMNOPQRSTUVWXYZ'' ''abcdefghijklmnopqrstuvwxyz'') c of
        Some l \<Rightarrow> l
      | None \<Rightarrow> c)"

definition toLowerCase :: "string \<Rightarrow> string" where
  "toLowerCase s = map toLowerCase_char s"

text \<open>A decoded jimp image: the bitmap with its size, and the two encoder settings.\<close>

record image =
  bitmap_width :: nat
  bitmap_height :: nat
  bitmap_data :: buffer
  img_quality :: int
  img_background :: "32 word"

text \<open>The result object of \<^verbatim>\<open>processImage\<close>.\<close>

record processed =
  buffer :: buffer
  imageFormat :: image_format

section \<open>The note store, the log and the detached work\<close>

record Note =
  parentId :: string
  title :: string
  noteType :: string
  mime :: string
  content :: buffer
  isProtected :: bool
  labels :: "(string \<times> string) list"

record NoteRevision =
  rev_noteId :: string
  rev_title :: string
  rev_mime :: string
  rev_content :: buffer
  rev_isProtected :: bool

datatype log_entry = LogInfo string | LogError string

text \<open>
  A promise chain \<^verbatim>\<open>processImage(...).then(...)\<close> that has been started and whose
  continuation has not run yet. Both \<^verbatim>\<open>updateImage\<close> and \<^verbatim>\<open>saveImage\<close> attach the same
  continuation, so the chain is determined by the note and the arguments of
  \<^verbatim>\<open>processImage\<close>.
\<close>

record detached =
  d_noteId :: string
  d_uploadBuffer :: buffer
  d_originalName :: string
  d_shrinkImageSwitch :: bool

record state =
  becca_notes :: "string \<rightharpoonup> Note"
  revisions :: "NoteRevision list"
  logs :: "log_entry list"
  pending :: "detached list"

text \<open>The object literal handed to \<^verbatim>\<open>noteService.createNewNote\<close>.\<close>

record note_params =
  p_parentNoteId :: string
  p_title :: string
  p_type :: string
  p_mime :: string
  p_content :: buffer
  p_isProtected :: bool

text \<open>The object returned by \<^verbatim>\<open>saveImage\<close>; \<open>res_note\<close> refers to the note entity by its id.\<close>

record saved_image =
  res_fileName :: string
  res_note :: string
  res_noteId :: string
  res_url :: string

section \<open>The packages and services the module requires\<close>

text \<open>
  The npm packages (is-svg, image-type, is-animated, the jimp codecs, sanitize-filename)
  and the option and protected-session services are parameters: every theorem below
  holds for whatever they compute. \<open>newNoteId\<close> is the identifier the note service
  gives a new note.
\<close>

record env =
  isSvg :: "buffer \<Rightarrow> bool"
  imageType :: "buffer \<Rightarrow> (string \<times> string) option"
  isAnimated :: "buffer \<Rightarrow> bool"
  jimp_read :: "buffer \<Rightarrow> js_error + image"
  jimp_getBufferAsync :: "image \<Rightarrow> string \<Rightarrow> js_error + buffer"
  getOptionInt :: "string \<Rightarrow> int"
  sanitizeFilename :: "string \<Rightarrow> string"
  isProtectedSessionAvailable :: bool
  newNoteId :: "(string \<rightharpoonup> Note) \<Rightarrow> string"

definition jimp_AUTO :: int where
  "jimp_AUTO = - 1"

definition jimp_MIME_JPEG :: string where
  "jimp_MIME_JPEG = ''image/jpeg''"

text \<open>\<^verbatim>\<open>Math.round(a / c)\<close> for integers \<open>a\<close> and \<open>c \<noteq> 0\<close>, in exact arithmetic.\<close>

definition Math_round_div :: "int \<Rightarrow> int \<Rightarrow> int" where
  "Math_round_div a c = (2 * a + c) div (2 * c)"

text \<open>The JavaScript expression \<^verbatim>\<open>n || 1\<close> on a number.\<close>

definition js_or_1 :: "int \<Rightarrow> int" where
  "js_or_1 n = (if n = 0 then 1 else n)"

text \<open>
  Modelled from the spec: \<^verbatim>\<open>image.resize\<close> of the jimp package, which is not under
  \<^verbatim>\<open>src/\<close>. Section 4.3 step 2: the given side is set and the side passed as
  \<^verbatim>\<open>jimp.AUTO\<close> is "adjusted to preserve aspect ratio". As jimp does, the adjusted
  side is rounded to the nearest pixel (\<^verbatim>\<open>Math.round\<close>, which agrees with Scenario A: 3000
  by 2000 becomes 1000 by 667), the call throws when both sides are \<^verbatim>\<open>AUTO\<close> or a side
  is negative, and a side that rounds to 0 becomes 1. The quotient is exact here, where
  jimp uses floating point; dividing by a zero side (a non-finite size in jimp) is kept
  apart as a failure of its own. The bitmap data is left as decoded: resampling is part
  of what the encoder of \<open>env\<close> computes from the record.
\<close>

definition jimp_resize :: "int \<Rightarrow> int \<Rightarrow> image \<Rightarrow> js_error + image" where
  "jimp_resize w h img =
     (if w = jimp_AUTO \<and> h = jimp_AUTO then Inl (Thrown ''w and h cannot both be set to auto'')
      else if w = jimp_AUTO then
        (if h < 0 then Inl (Thrown ''w and h must be positive numbers'')
         else if bitmap_height img = 0 then Inl (Thrown ''non-finite size'')
         else Inr (img\<lparr>
           bitmap_width :=
             nat (js_or_1 (Math_round_div (int (bitmap_width img) * h) (int (bitmap_height img)))),
           bitmap_height := nat (js_or_1 h)\<rparr>))
      else if h = jimp_AUTO then
        (if w < 0 then Inl (Thrown ''w and h must be positive numbers'')
         else if bitmap_width img = 0 then Inl (Thrown ''non-finite size'')
         else Inr (img\<lparr>
           bitmap_width := nat (js_or_1 w),
           bitmap_height :=
             nat (js_or_1 (Math_round_div (int (bitmap_height img) * w) (int (bitmap_width img))))\<rparr>))
      else if w < 0 \<or> h < 0 then Inl (Thrown ''w and h must be positive numbers'')
      else Inr (img\<lparr>bitmap_width := nat (js_or_1 w), bitmap_height := nat (js_or_1 h)\<rparr>))"

text \<open>
  Modelled from the spec: \<^verbatim>\<open>image.quality\<close> and \<^verbatim>\<open>image.background\<close> of the jimp
  package, which is not under \<^verbatim>\<open>src/\<close>. Section 4.3 steps 3 and 4: the quality is a
  number on the scale 0 to 100 (jimp throws outside it), the background is the colour
  the alpha channel is flattened against.
\<close>

definition jimp_quality :: "int \<Rightarrow> image \<Rightarrow> js_error + image" where
  "jimp_quality n img =
     (if n < 0 \<or> n > 100 then Inl (Thrown ''n must be a number 0 - 100'')
      else Inr (img\<lparr>img_quality := n\<rparr>))"

definition jimp_background :: "32 word \<Rightarrow> image \<Rightarrow> image" where
  "jimp_background hex img = img\<lparr>img_background := hex\<rparr>"

section \<open>Detection and MIME type\<close>

text \<open>\<^verbatim>\<open>getImageType\<close>, lines 38 to 47.\<close>

definition getImageType :: "env \<Rightarrow> buffer \<Rightarrow> image_format" where
  "getImageType env buf =
     (if isSvg env buf then FormatObject ''svg'' None
      else (case imageType env buf of
              Some (e, m) \<Rightarrow> FormatObject e (Some m)
            | None \<Rightarrow> FormatString ''jpg''))"

text \<open>
  \<^verbatim>\<open>getImageMimeFromExtension\<close>, lines 49 to 53. The argument is \<open>None\<close> when the caller
  passes \<^verbatim>\<open>undefined\<close>; the method call on it throws.
\<close>

definition getImageMimeFromExtension :: "string option \<Rightarrow> js_error + string" where
  "getImageMimeFromExtension ext =
     (case ext of
        None \<Rightarrow> Inl (TypeError ''toLowerCase'')
      | Some e \<Rightarrow>
          (let ext' = toLowerCase e
           in Inr (''image/'' @ (if ext' = ''svg'' then ''svg+xml'' else ext'))))"

section \<open>Resizing\<close>

definition log_info :: "string \<Rightarrow> state \<Rightarrow> state" where
  "log_info msg s = s\<lparr>logs := logs s @ [LogInfo msg]\<rparr>"

definition log_error :: "string \<Rightarrow> state \<Rightarrow> state" where
  "log_error msg s = s\<lparr>logs := logs s @ [LogError msg]\<rparr>"

text \<open>\<^verbatim>\<open>resize\<close>, lines 134 to 152. Every exception of a step is the result \<open>Inl\<close>.\<close>

definition resize :: "env \<Rightarrow> buffer \<Rightarrow> int \<Rightarrow> js_error + buffer" where
  "resize env buf quality =
     (let imageMaxWidthHeight = getOptionInt env ''imageMaxWidthHeight'' in
      case jimp_read env buf of
        Inl e \<Rightarrow> Inl e
      | Inr img \<Rightarrow>
          (case (if int (bitmap_width img) > int (bitmap_height img)
                    \<and> int (bitmap_width img) > imageMaxWidthHeight
                 then jimp_resize imageMaxWidthHeight jimp_AUTO img
                 else if int (bitmap_height img) > imageMaxWidthHeight
                 then jimp_resize jimp_AUTO imageMaxWidthHeight img
                 else Inr img) of
             Inl e \<Rightarrow> Inl e
           | Inr image1 \<Rightarrow>
               (case jimp_quality quality image1 of
                  Inl e \<Rightarrow> Inl e
                | Inr image2 \<Rightarrow>
                    jimp_getBufferAsync env (jimp_background 0xFFFFFFFF image2) jimp_MIME_JPEG)))"

text \<open>
  The text \<^verbatim>\<open>e.stack\<close> renders to; for a \<open>TypeError\<close> only its first words are kept.
\<close>

fun error_stack :: "js_error \<Rightarrow> string" where
  "error_stack (Thrown st) = st"
| "error_stack (TypeError p) = ''TypeError: '' @ p"

text \<open>The message of the \<^verbatim>\<open>catch\<close> block of \<^verbatim>\<open>shrinkImage\<close>, line 120.\<close>

definition resize_failure_message :: "string \<Rightarrow> js_error \<Rightarrow> string" where
  "resize_failure_message originalName e =
     ''Failed to resize image '' @ [CHR 0x27] @ originalName @ [CHR 0x27, CHR 0x0A]
       @ ''Stack: '' @ error_stack e"

text \<open>\<^verbatim>\<open>shrinkImage\<close>, lines 112 to 132.\<close>

definition shrinkImage :: "env \<Rightarrow> buffer \<Rightarrow> string \<Rightarrow> state \<Rightarrow> buffer \<times> state" where
  "shrinkImage env buf originalName s =
     (let jpegQuality = getOptionInt env ''imageJpegQuality'';
          (finalImageBuffer, s') =
            (case resize env buf jpegQuality of
               Inr resized \<Rightarrow> (resized, s)
             | Inl e \<Rightarrow> (buf, log_error (resize_failure_message originalName e) s))
      in (if length finalImageBuffer \<ge> length buf then buf else finalImageBuffer, s'))"

section \<open>The transformation pipeline\<close>

text \<open>
  Lines 17 to 26 of \<^verbatim>\<open>processImage\<close>: the value of \<^verbatim>\<open>shrinkImageSwitch\<close> once the two
  overriding branches have run.
\<close>

definition effectiveShrinkSwitch :: "env \<Rightarrow> buffer \<Rightarrow> bool \<Rightarrow> bool" where
  "effectiveShrinkSwitch env uploadBuffer shrinkImageSwitch =
     (let origImageFormat = getImageType env uploadBuffer in
      if truthy origImageFormat
           \<and> js_includes [''webp'', ''svg'', ''gif''] (format_ext origImageFormat)
      then False
      else if isAnimated env uploadBuffer then False
      else shrinkImageSwitch)"

text \<open>\<^verbatim>\<open>processImage\<close>, lines 16 to 36.\<close>

definition processImage :: "env \<Rightarrow> buffer \<Rightarrow> string \<Rightarrow> bool \<Rightarrow> state \<Rightarrow> processed \<times> state" where
  "processImage env uploadBuffer originalName shrinkImageSwitch s =
     (let (finalImageBuffer, s') =
            (if effectiveShrinkSwitch env uploadBuffer shrinkImageSwitch
             then shrinkImage env uploadBuffer originalName s
             else (uploadBuffer, s))
      in (\<lparr>buffer = finalImageBuffer, imageFormat = getImageType env finalImageBuffer\<rparr>, s'))"

section \<open>The collaborators of the persistence path\<close>

text \<open>
  Modelled from the spec: the note store (\<^verbatim>\<open>becca\<close> and its note entities), which is
  not under \<^verbatim>\<open>src/\<close>. Section 6: a note is fetched by id, and a note's metadata, MIME
  type and content are set on it. A note is referred to by its id; no operation of the
  model removes a note, so a reference stays valid. \<^verbatim>\<open>note.save()\<close> persists the
  entity; the store of the model is that persisted state already, so it changes nothing.
\<close>

definition becca_getNote :: "state \<Rightarrow> string \<Rightarrow> Note option" where
  "becca_getNote s noteId = becca_notes s noteId"

definition update_note :: "string \<Rightarrow> (Note \<Rightarrow> Note) \<Rightarrow> state \<Rightarrow> state" where
  "update_note noteId f s =
     s\<lparr>becca_notes := (becca_notes s)(noteId := map_option f (becca_notes s noteId))\<rparr>"

definition Note_setLabel :: "string \<Rightarrow> string \<Rightarrow> string \<Rightarrow> state \<Rightarrow> state" where
  "Note_setLabel noteId name v =
     update_note noteId (\<lambda>n. n\<lparr>labels :=
       (if name \<in> fst ` set (labels n)
        then map (\<lambda>(k, old). if k = name then (k, v) else (k, old)) (labels n)
        else labels n @ [(name, v)])\<rparr>)"

definition Note_addLabel :: "string \<Rightarrow> string \<Rightarrow> string \<Rightarrow> state \<Rightarrow> state" where
  "Note_addLabel noteId name v = update_note noteId (\<lambda>n. n\<lparr>labels := labels n @ [(name, v)]\<rparr>)"

definition Note_set_mime :: "string \<Rightarrow> string \<Rightarrow> state \<Rightarrow> state" where
  "Note_set_mime noteId m = update_note noteId (\<lambda>n. n\<lparr>mime := m\<rparr>)"

definition Note_save :: "string \<Rightarrow> state \<Rightarrow> state" where
  "Note_save noteId s = s"

definition Note_setContent :: "string \<Rightarrow> buffer \<Rightarrow> state \<Rightarrow> state" where
  "Note_setContent noteId c = update_note noteId (\<lambda>n. n\<lparr>content := c\<rparr>)"

text \<open>
  Modelled from the spec: \<^verbatim>\<open>noteService.createNewNote\<close>, which is not under \<^verbatim>\<open>src/\<close>.
  Section 6: \<^verbatim>\<open>createNote(config)\<close> gives a note, "where config carries parentId, title,
  type, initial mime, initial content, protection flag". The new note has no label yet.
\<close>

definition createNewNote :: "env \<Rightarrow> note_params \<Rightarrow> state \<Rightarrow> string \<times> state" where
  "createNewNote env params s =
     (let noteId = newNoteId env (becca_notes s)
      in (noteId,
          s\<lparr>becca_notes := (becca_notes s)(noteId \<mapsto>
            \<lparr>parentId = p_parentNoteId params, title = p_title params, noteType = p_type params,
             mime = p_mime params, content = p_content params,
             isProtected = p_isProtected params, labels = []\<rparr>)\<rparr>))"

text \<open>
  Modelled from the spec: the revision service (\<^verbatim>\<open>note_revisions\<close>), which is not under
  \<^verbatim>\<open>src/\<close>. Section 4.5: "Create a revision snapshot of the note's current state
  (captures prior content before mutation) and mark that snapshot as
  protection-inheriting if the note is protected".
\<close>

definition snapshot_of :: "string \<Rightarrow> Note \<Rightarrow> NoteRevision" where
  "snapshot_of noteId n =
     \<lparr>rev_noteId = noteId, rev_title = title n, rev_mime = mime n, rev_content = content n,
      rev_isProtected = isProtected n\<rparr>"

definition createNoteRevision :: "string \<Rightarrow> state \<Rightarrow> state" where
  "createNoteRevision noteId s =
     (case becca_notes s noteId of
        None \<Rightarrow> s
      | Some n \<Rightarrow> s\<lparr>revisions := revisions s @ [snapshot_of noteId n]\<rparr>)"

definition protectNoteRevisions :: "string \<Rightarrow> state \<Rightarrow> state" where
  "protectNoteRevisions noteId s =
     (case becca_notes s noteId of
        None \<Rightarrow> s
      | Some n \<Rightarrow>
          s\<lparr>revisions :=
            map (\<lambda>r. if rev_noteId r = noteId \<and> isProtected n then r\<lparr>rev_isProtected := True\<rparr> else r)
              (revisions s)\<rparr>)"

text \<open>
  Modelled from the spec: \<^verbatim>\<open>sql.transactional\<close>, which is not under \<^verbatim>\<open>src/\<close>. Section 6:
  it "executes fn with all-or-nothing durability; any failure inside aborts the whole
  enclosed write set", and the failure goes on to the caller. The write set is the
  database (notes and revisions); the log is outside it.
\<close>

definition sql_transactional ::
  "(state \<Rightarrow> (js_error + 'a) \<times> state) \<Rightarrow> state \<Rightarrow> (js_error + 'a) \<times> state" where
  "sql_transactional body s =
     (case body s of
        (Inl e, s') \<Rightarrow> (Inl e, s'\<lparr>becca_notes := becca_notes s, revisions := revisions s\<rparr>)
      | (Inr v, s') \<Rightarrow> (Inr v, s'))"

section \<open>Persisting an image\<close>

text \<open>
  The continuation both entry points pass to \<^verbatim>\<open>then\<close> (lines 66 to 73 and 95 to 102),
  applied to the note it closes over and to the result of \<^verbatim>\<open>processImage\<close>.
\<close>

definition commitProcessed :: "string \<Rightarrow> processed \<Rightarrow> state \<Rightarrow> (js_error + unit) \<times> state" where
  "commitProcessed noteId p =
     sql_transactional (\<lambda>s.
       case getImageMimeFromExtension (format_ext (imageFormat p)) of
         Inl e \<Rightarrow> (Inl e, s)
       | Inr m \<Rightarrow>
           (Inr (), Note_setContent noteId (buffer p) (Note_save noteId (Note_set_mime noteId m s))))"

text \<open>
  Starting \<^verbatim>\<open>processImage(...).then(...)\<close>. An \<^verbatim>\<open>async\<close> function changes nothing
  before its first \<^verbatim>\<open>await\<close> here (detection is pure, and the \<^verbatim>\<open>catch\<close> block of
  \<^verbatim>\<open>shrinkImage\<close> runs after an \<^verbatim>\<open>await\<close>), and a continuation passed to \<^verbatim>\<open>then\<close> runs
  after the calling function has returned. So the call only records the work.
\<close>

definition detach :: "detached \<Rightarrow> state \<Rightarrow> state" where
  "detach d s = s\<lparr>pending := pending s @ [d]\<rparr>"

text \<open>
  \<^verbatim>\<open>updateImage\<close>, lines 55 to 74. When \<^verbatim>\<open>becca.getNote\<close> gives \<^verbatim>\<open>undefined\<close>, the
  revision service is handed \<^verbatim>\<open>undefined\<close> and, at the latest, \<^verbatim>\<open>note.setLabel\<close> on line 63
  throws; no note is touched.
\<close>

definition updateImage :: "string \<Rightarrow> buffer \<Rightarrow> string \<Rightarrow> state \<Rightarrow> (js_error + unit) \<times> state" where
  "updateImage noteId uploadBuffer originalName s0 =
     (let s1 = log_info (''Updating image '' @ noteId @ '': '' @ originalName) s0 in
      case becca_getNote s1 noteId of
        None \<Rightarrow> (Inl (TypeError ''setLabel''), s1)
      | Some n \<Rightarrow>
          (let s2 = createNoteRevision noteId s1;
               s3 = protectNoteRevisions noteId s2;
               s4 = Note_setLabel noteId ''originalFileName'' originalName s3;
               s5 = detach \<lparr>d_noteId = noteId, d_uploadBuffer = uploadBuffer,
                             d_originalName = originalName, d_shrinkImageSwitch = True\<rparr> s4
           in (Inr (), s5)))"

text \<open>
  \<^verbatim>\<open>saveImage\<close>, lines 76 to 110. With no parent note, \<^verbatim>\<open>parentNote.isProtected\<close> on
  line 89 throws before the note service is called.
\<close>

definition saveImage ::
  "env \<Rightarrow> string \<Rightarrow> buffer \<Rightarrow> string \<Rightarrow> bool \<Rightarrow> state \<Rightarrow> (js_error + saved_image) \<times> state" where
  "saveImage env parentNoteId uploadBuffer originalName shrinkImageSwitch s0 =
     (let s1 = log_info (''Saving image '' @ originalName) s0;
          fileName = sanitizeFilename env originalName in
      case becca_getNote s1 parentNoteId of
        None \<Rightarrow> (Inl (TypeError ''isProtected''), s1)
      | Some parentNote \<Rightarrow>
          (let (noteId, s2) =
                 createNewNote env
                   \<lparr>p_parentNoteId = parentNoteId, p_title = fileName, p_type = ''image'',
                    p_mime = ''unknown'', p_content = [],
                    p_isProtected = (isProtected parentNote \<and> isProtectedSessionAvailable env)\<rparr> s1;
               s3 = Note_addLabel noteId ''originalFileName'' originalName s2;
               s4 = detach \<lparr>d_noteId = noteId, d_uploadBuffer = uploadBuffer,
                             d_originalName = originalName,
                             d_shrinkImageSwitch = shrinkImageSwitch\<rparr> s3
           in (Inr \<lparr>res_fileName = fileName, res_note = noteId, res_noteId = noteId,
                    res_url = ''api/images/'' @ noteId @ ''/'' @ fileName\<rparr>, s4)))"

text \<open>
  The detached unit of work: the promise of \<^verbatim>\<open>processImage\<close> settles and its continuation
  runs. An error here is a rejection nobody handles; the state it leaves is the result.
\<close>

definition runDetached :: "env \<Rightarrow> detached \<Rightarrow> state \<Rightarrow> (js_error + unit) \<times> state" where
  "runDetached env d s =
     (let (p, s') =
            processImage env (d_uploadBuffer d) (d_originalName d) (d_shrinkImageSwitch d) s
      in commitProcessed (d_noteId d) p s')"

text \<open>The event loop takes the oldest pending unit; \<open>None\<close> when nothing is pending.\<close>

definition runNextDetached :: "env \<Rightarrow> state \<Rightarrow> ((js_error + unit) \<times> state) option" where
  "runNextDetached env s =
     (case pending s of
        [] \<Rightarrow> None
      | d # ds \<Rightarrow> Some (runDetached env d (s\<lparr>pending := ds\<rparr>)))"

text \<open>
  The event loop runs the pending units one after the other; the result lists the state
  after each of them. A unit starts no further unit, so the loop ends.
\<close>

function eventLoop :: "env \<Rightarrow> state \<Rightarrow> state list" where
  "eventLoop env s =
     (case runNextDetached env s of
        None \<Rightarrow> []
      | Some (r, s') \<Rightarrow> s' # eventLoop env s')"
  by pat_completeness auto
termination
  by (relation "measure (\<lambda>(env, s). length (pending s))")
     (auto simp: runNextDetached_def runDetached_def processImage_def shrinkImage_def
        commitProcessed_def sql_transactional_def Note_setContent_def Note_save_def
        Note_set_mime_def update_note_def log_error_def Let_def split_beta
        split: list.splits sum.splits if_splits prod.splits)

declare eventLoop.simps [simp del]

section \<open>The rules as the specification words them\<close>

text \<open>
  The MIME rule of section 6 of the specification, as written there:
  \<^verbatim>\<open>extension == "svg" ? "image/svg+xml" : "image/" + extension.toLowerCase()\<close>.
\<close>

definition spec_deriveMime :: "string \<Rightarrow> string" where
  "spec_deriveMime extension =
     (if extension = ''svg'' then ''image/svg+xml'' else ''image/'' @ toLowerCase extension)"

text \<open>
  The size rule of section 4.3 step 2 of the specification: the longer side, when it
  exceeds the maximum, becomes the maximum and the other side keeps the aspect ratio,
  rounded to the nearest pixel and at least one pixel.
\<close>

definition spec_resized_size :: "int \<Rightarrow> nat \<times> nat \<Rightarrow> nat \<times> nat" where
  "spec_resized_size maxDimension wh =
     (case wh of (width, height) \<Rightarrow>
        if int width > int height \<and> int width > maxDimension
        then (nat maxDimension,
              nat (max 1 (Math_round_div (int height * maxDimension) (int width))))
        else if int height > maxDimension
        then (nat (max 1 (Math_round_div (int width * maxDimension) (int height))),
              nat maxDimension)
        else (width, height))"

section \<open>A concrete environment\<close>

text \<open>
  Stand-ins for the packages, used to evaluate the definitions on concrete buffers: an
  SVG starts with \<^verbatim>\<open><svg\<close>, the raster signatures are those of PNG, JPEG and GIF, the
  decoder reads a PNG-like header holding the width and the height in two bytes each,
  and the encoder writes a three-byte JPEG.
\<close>

definition example_env :: env where
  "example_env =
     \<lparr>isSvg = (\<lambda>b. take 4 b = [0x3C, 0x73, 0x76, 0x67]),
      imageType = (\<lambda>b. if take 4 b = [0x89, 0x50, 0x4E, 0x47] then Some (''png'', ''image/png'')
                        else if take 3 b = [0xFF, 0xD8, 0xFF] then Some (''jpg'', ''image/jpeg'')
                        else if take 3 b = [0x47, 0x49, 0x46] then Some (''gif'', ''image/gif'')
                        else None),
      isAnimated = (\<lambda>b. False),
      jimp_read = (\<lambda>b. if take 4 b = [0x89, 0x50, 0x4E, 0x47] \<and> 8 \<le> length b
                        then Inr \<lparr>bitmap_width = unat (b ! 4) * 256 + unat (b ! 5),
                                  bitmap_height = unat (b ! 6) * 256 + unat (b ! 7),
                                  bitmap_data = drop 8 b, img_quality = 100, img_background = 0\<rparr>
                        else Inl (Thrown ''Could not find MIME for Buffer'')),
      jimp_getBufferAsync = (\<lambda>img m. Inr [0xFF, 0xD8, 0xFF]),
      getOptionInt = (\<lambda>name. if name = ''imageMaxWidthHeight'' then 1000 else 75),
      sanitizeFilename = (\<lambda>name. filter (\<lambda>c. c \<noteq> CHR ''/'') name),
      isProtectedSessionAvailable = True,
      newNoteId = (\<lambda>store. ''note1'')\<rparr>"

definition example_png :: buffer where
  "example_png = [0x89, 0x50, 0x4E, 0x47, 0x0B, 0xB8, 0x07, 0xD0, 1, 2, 3, 4]"

text \<open>A store with a protected root note and an image note under it.\<close>

definition example_state :: state where
  "example_state =
     \<lparr>becca_notes =
        [''root'' \<mapsto> \<lparr>parentId = ''none'', title = ''root'', noteType = ''text'',
                      mime = ''text/html'', content = [], isProtected = True, labels = []\<rparr>,
         ''img1'' \<mapsto> \<lparr>parentId = ''root'', title = ''old.gif'', noteType = ''image'',
                      mime = ''image/gif'', content = [0x47, 0x49, 0x46, 0x38],
                      isProtected = False, labels = [(''originalFileName'', ''old.gif'')]\<rparr>],
      revisions = [], logs = [], pending = []\<rparr>"


section \<open>Facts about the concrete environment\<close>

lemma example_root:
  "becca_notes example_state ''root'' =
     Some \<lparr>parentId = ''none'', title = ''root'', noteType = ''text'', mime = ''text/html'',
           content = [], isProtected = True, labels = []\<rparr>"
  by (simp add: example_state_def)

lemma example_img1:
  "becca_notes example_state ''img1'' =
     Some \<lparr>parentId = ''root'', title = ''old.gif'', noteType = ''image'', mime = ''image/gif'',
           content = [0x47, 0x49, 0x46, 0x38], isProtected = False,
           labels = [(''originalFileName'', ''old.gif'')]\<rparr>"
  by (simp add: example_state_def)

lemma example_idle: "pending example_state = []"
  by (simp add: example_state_def)



lemma example_newNoteId: "newNoteId example_env store = ''note1''"
  by (simp add: example_env_def)

lemma example_resize_png: "resize example_env example_png 75 = Inr [0xFF, 0xD8, 0xFF]"
  by (simp add: resize_def example_env_def example_png_def jimp_resize_def jimp_AUTO_def
      jimp_quality_def)

lemma example_processImage_png:
  "fst (processImage example_env example_png name True s)
     = \<lparr>buffer = [0xFF, 0xD8, 0xFF], imageFormat = FormatObject ''jpg'' (Some ''image/jpeg'')\<rparr>"
  using example_resize_png
  by (simp add: processImage_def effectiveShrinkSwitch_def getImageType_def js_includes_def
      shrinkImage_def example_env_def example_png_def)

section \<open>Detection\<close>

text \<open>
  Claim C1 (the code departs from it). The claim: detection returns a format value
  whose extension is a non-empty string, \<open>jpg\<close> when no signature matches. The code
  returns, for a buffer that is no SVG and has no raster signature, the bare string
  \<open>jpg\<close>, whose \<^verbatim>\<open>ext\<close> property is undefined.
\<close>

theorem getImageType_unmatched_is_bare_string:
  assumes "\<not> isSvg env buf" and "imageType env buf = None"
  shows "getImageType env buf = FormatString ''jpg''
         \<and> format_ext (getImageType env buf) = None
         \<and> format_ext (getImageType env buf) \<noteq> Some ''jpg''"
  using assms by (simp add: getImageType_def)

theorem getImageType_empty_buffer:
  "\<not> isSvg example_env [] \<and> imageType example_env [] = None
   \<and> getImageType example_env [] = FormatString ''jpg''
   \<and> format_ext (getImageType example_env []) = None"
  using getImageType_unmatched_is_bare_string [of example_env "[]"]
  by (simp add: example_env_def)

section \<open>The MIME type\<close>

text \<open>
  Claim C5, as amended. The MIME string of an extension is
  \<^verbatim>\<open>extension.toLowerCase() == "svg" ? "image/svg+xml" : "image/" + extension.toLowerCase()\<close>:
  the extension is lowercased before it is compared with \<open>svg\<close>. In particular
  \<open>svg\<close> gives \<open>image/svg+xml\<close> and \<open>PNG\<close> gives \<open>image/png\<close>.
\<close>

theorem mime_lowercases_first:
  "getImageMimeFromExtension (Some ext) =
     Inr (if toLowerCase ext = ''svg'' then ''image/svg+xml'' else ''image/'' @ toLowerCase ext)
   \<and> getImageMimeFromExtension (Some ''svg'') = Inr ''image/svg+xml''
   \<and> getImageMimeFromExtension (Some ''PNG'') = Inr ''image/png''"
  by (simp add: getImageMimeFromExtension_def Let_def toLowerCase_def toLowerCase_char_def)

theorem mime_lowercases_first_witness:
  "getImageMimeFromExtension (Some ''Svg'') = Inr ''image/svg+xml''"
  using mime_lowercases_first [of "''Svg''"]
  by (simp add: toLowerCase_def toLowerCase_char_def)

text \<open>
  Claim C5 as stated fails at the extension \<open>SVG\<close>: the expression of the
  specification compares before lowercasing and gives \<open>image/svg\<close>, the code gives
  \<open>image/svg+xml\<close>.
\<close>

theorem mime_spec_expression_counterexample:
  "getImageMimeFromExtension (Some ''SVG'') = Inr ''image/svg+xml''
   \<and> spec_deriveMime ''SVG'' = ''image/svg''
   \<and> getImageMimeFromExtension (Some ''SVG'') \<noteq> Inr (spec_deriveMime ''SVG'')"
  by (simp add: getImageMimeFromExtension_def spec_deriveMime_def Let_def toLowerCase_def
      toLowerCase_char_def)

section \<open>The shrink decision\<close>

lemma getImageType_truthy: "truthy (getImageType env buf)"
  by (simp add: getImageType_def split: option.split)

text \<open>
  Claim C3. The effective shrink decision is false whenever the extension of the
  detected format is one of \<open>webp\<close>, \<open>svg\<close>, \<open>gif\<close> or the buffer is detected as
  animated, whatever the caller requested; otherwise it is the requested flag. When it is
  forced off, \<^verbatim>\<open>processImage\<close> hands the upload back untouched.
\<close>

theorem shrink_decision:
  "effectiveShrinkSwitch env uploadBuffer requested =
     (if format_ext (getImageType env uploadBuffer) \<in> {Some ''webp'', Some ''svg'', Some ''gif''}
         \<or> isAnimated env uploadBuffer
      then False else requested)
   \<and> (format_ext (getImageType env uploadBuffer) \<in> {Some ''webp'', Some ''svg'', Some ''gif''}
         \<or> isAnimated env uploadBuffer
       \<longrightarrow> processImage env uploadBuffer originalName requested s =
             (\<lparr>buffer = uploadBuffer, imageFormat = getImageType env uploadBuffer\<rparr>, s))"
proof -
  have decision: "effectiveShrinkSwitch env uploadBuffer requested =
     (if format_ext (getImageType env uploadBuffer) \<in> {Some ''webp'', Some ''svg'', Some ''gif''}
         \<or> isAnimated env uploadBuffer
      then False else requested)"
    by (cases "format_ext (getImageType env uploadBuffer)")
       (auto simp: effectiveShrinkSwitch_def Let_def js_includes_def getImageType_truthy)
  show ?thesis
    by (simp only: decision) (simp add: processImage_def decision)
qed

theorem shrink_decision_witness:
  "effectiveShrinkSwitch example_env [0x47, 0x49, 0x46, 0x38] True = False
   \<and> processImage example_env [0x47, 0x49, 0x46, 0x38] ''a.gif'' True example_state =
       (\<lparr>buffer = [0x47, 0x49, 0x46, 0x38], imageFormat = FormatObject ''gif'' (Some ''image/gif'')\<rparr>,
        example_state)
   \<and> effectiveShrinkSwitch example_env example_png True = True
   \<and> effectiveShrinkSwitch example_env example_png False = False"
proof -
  have gif: "getImageType example_env [0x47, 0x49, 0x46, 0x38]
      = FormatObject ''gif'' (Some ''image/gif'')"
    by (simp add: getImageType_def example_env_def)
  have png: "getImageType example_env example_png = FormatObject ''png'' (Some ''image/png'')"
    by (simp add: getImageType_def example_env_def example_png_def)
  have still: "\<not> isAnimated example_env b" for b
    by (simp add: example_env_def)
  show ?thesis
    using shrink_decision [of example_env "[0x47, 0x49, 0x46, 0x38]" True "''a.gif''" example_state]
      shrink_decision [of example_env example_png True "''a.png''" example_state]
      shrink_decision [of example_env example_png False "''a.png''" example_state]
    by (simp add: gif png still)
qed

section \<open>The pipeline\<close>

text \<open>
  Claim C2. For every buffer, name and flag the buffer \<^verbatim>\<open>processImage\<close> returns is no
  longer than the upload; and when shrinking is not applied (the flag is false, or the
  format or an animation forces it off) the returned buffer is the upload itself.
\<close>

theorem processImage_never_grows:
  "length (buffer (fst (processImage env uploadBuffer originalName shrinkImageSwitch s)))
     \<le> length uploadBuffer
   \<and> (\<not> shrinkImageSwitch
        \<or> format_ext (getImageType env uploadBuffer) \<in> {Some ''webp'', Some ''svg'', Some ''gif''}
        \<or> isAnimated env uploadBuffer
       \<longrightarrow> buffer (fst (processImage env uploadBuffer originalName shrinkImageSwitch s))
             = uploadBuffer)"
proof -
  have shrink: "length (fst (shrinkImage env uploadBuffer originalName s)) \<le> length uploadBuffer"
    by (simp add: shrinkImage_def Let_def split: sum.split)
  have len: "length (buffer (fst (processImage env uploadBuffer originalName shrinkImageSwitch s)))
     \<le> length uploadBuffer"
    using shrink by (simp add: processImage_def split_beta)
  have off: "\<not> effectiveShrinkSwitch env uploadBuffer shrinkImageSwitch"
    if "\<not> shrinkImageSwitch
        \<or> format_ext (getImageType env uploadBuffer) \<in> {Some ''webp'', Some ''svg'', Some ''gif''}
        \<or> isAnimated env uploadBuffer"
    using that
    by (cases "format_ext (getImageType env uploadBuffer)")
       (auto simp: effectiveShrinkSwitch_def Let_def js_includes_def getImageType_truthy)
  from len off show ?thesis
    by (auto simp: processImage_def)
qed

theorem processImage_never_grows_witness:
  "length (buffer (fst (processImage example_env example_png ''a.png'' True example_state))) = 3
   \<and> length example_png = 12
   \<and> length (buffer (fst (processImage example_env example_png ''a.png'' True example_state)))
        \<le> length example_png
   \<and> buffer (fst (processImage example_env example_png ''a.png'' False example_state)) = example_png"
  using processImage_never_grows [of example_env example_png "''a.png''" True example_state]
    processImage_never_grows [of example_env example_png "''a.png''" False example_state]
  by (simp add: example_processImage_png) (simp add: example_png_def)

text \<open>
  Claim C10. Feeding the bytes of a result of \<^verbatim>\<open>processImage\<close> back into
  \<^verbatim>\<open>processImage\<close> with the shrink flag off returns that result: the same bytes and the
  same detected format, and nothing is logged.
\<close>

theorem processImage_idempotent:
  "processImage env (buffer (fst (processImage env uploadBuffer originalName shrinkImageSwitch s)))
     otherName False s'
   = (fst (processImage env uploadBuffer originalName shrinkImageSwitch s), s')"
  by (simp add: processImage_def effectiveShrinkSwitch_def Let_def split: prod.split)

theorem processImage_idempotent_witness:
  "fst (processImage example_env example_png ''a.png'' True example_state)
     = \<lparr>buffer = [0xFF, 0xD8, 0xFF], imageFormat = FormatObject ''jpg'' (Some ''image/jpeg'')\<rparr>
   \<and> processImage example_env [0xFF, 0xD8, 0xFF] ''b.jpg'' False example_state
     = (\<lparr>buffer = [0xFF, 0xD8, 0xFF], imageFormat = FormatObject ''jpg'' (Some ''image/jpeg'')\<rparr>,
        example_state)"
  using processImage_idempotent [of example_env example_png "''a.png''" True example_state
      "''b.jpg''" example_state]
  by (simp add: example_processImage_png)


text \<open>
  Claim C7. When the resize step fails, with a decode error or any other exception,
  \<^verbatim>\<open>shrinkImage\<close> logs the failure with the original file name and gives the original
  bytes, and \<^verbatim>\<open>processImage\<close> returns them with their detected format: the failure does
  not reach the caller.
\<close>

theorem resize_failure_recovered:
  assumes "resize env buf (getOptionInt env ''imageJpegQuality'') = Inl e"
  shows "shrinkImage env buf originalName s =
           (buf, s\<lparr>logs := logs s @ [LogError (''Failed to resize image '' @ [CHR 0x27]
                    @ originalName @ [CHR 0x27, CHR 0x0A] @ ''Stack: '' @ error_stack e)]\<rparr>)
         \<and> fst (processImage env buf originalName shrinkImageSwitch s) =
             \<lparr>buffer = buf, imageFormat = getImageType env buf\<rparr>
         \<and> snd (processImage env buf originalName shrinkImageSwitch s) =
             (if effectiveShrinkSwitch env buf shrinkImageSwitch
              then s\<lparr>logs := logs s @ [LogError (''Failed to resize image '' @ [CHR 0x27]
                     @ originalName @ [CHR 0x27, CHR 0x0A] @ ''Stack: '' @ error_stack e)]\<rparr>
              else s)"
  using assms
  by (simp add: processImage_def shrinkImage_def log_error_def resize_failure_message_def)

theorem resize_failure_recovered_witness:
  "resize example_env [0xFF, 0xD8, 0xFF, 0x00] (getOptionInt example_env ''imageJpegQuality'')
     = Inl (Thrown ''Could not find MIME for Buffer'')
   \<and> processImage example_env [0xFF, 0xD8, 0xFF, 0x00] ''photo.jpg'' True
        \<lparr>becca_notes = Map.empty, revisions = [], logs = [], pending = []\<rparr>
     = (\<lparr>buffer = [0xFF, 0xD8, 0xFF, 0x00], imageFormat = FormatObject ''jpg'' (Some ''image/jpeg'')\<rparr>,
        \<lparr>becca_notes = Map.empty, revisions = [],
         logs = [LogError (''Failed to resize image '' @ [CHR 0x27] @ ''photo.jpg''
                   @ [CHR 0x27, CHR 0x0A] @ ''Stack: Could not find MIME for Buffer'')],
         pending = []\<rparr>)"
proof -
  have failed: "resize example_env [0xFF, 0xD8, 0xFF, 0x00]
      (getOptionInt example_env ''imageJpegQuality'') = Inl (Thrown ''Could not find MIME for Buffer'')"
    by (simp add: resize_def example_env_def)
  have on: "effectiveShrinkSwitch example_env [0xFF, 0xD8, 0xFF, 0x00] True"
    by (simp add: effectiveShrinkSwitch_def getImageType_def js_includes_def example_env_def)
  have fmt: "getImageType example_env [0xFF, 0xD8, 0xFF, 0x00]
      = FormatObject ''jpg'' (Some ''image/jpeg'')"
    by (simp add: getImageType_def example_env_def)
  show ?thesis
    using resize_failure_recovered [OF failed, where originalName = "''photo.jpg''"
        and shrinkImageSwitch = True
        and s = "\<lparr>becca_notes = Map.empty, revisions = [], logs = [], pending = []\<rparr>"]
    by (simp add: failed on fmt prod_eq_iff)
qed

section \<open>The size of the resized image\<close>

lemma Math_round_div_nonneg: "0 \<le> a \<Longrightarrow> 0 < c \<Longrightarrow> 0 \<le> Math_round_div a c"
  by (simp add: Math_round_div_def pos_imp_zdiv_nonneg_iff)

lemma js_or_1_nonneg: "0 \<le> r \<Longrightarrow> js_or_1 r = max 1 r"
  by (simp add: js_or_1_def)

text \<open>
  The two calls \<^verbatim>\<open>resize\<close> makes never divide by a zero side: the guard of each branch
  makes the side it divides by positive, or the call throws for a negative maximum.
\<close>

lemma jimp_resize_width_finite:
  "bitmap_width img > bitmap_height img \<Longrightarrow>
     jimp_resize m jimp_AUTO img \<noteq> Inl (Thrown ''non-finite size'')"
  by (simp add: jimp_resize_def jimp_AUTO_def)

lemma jimp_resize_height_finite:
  "int (bitmap_height img) > m \<Longrightarrow>
     jimp_resize jimp_AUTO m img \<noteq> Inl (Thrown ''non-finite size'')"
  by (auto simp: jimp_resize_def jimp_AUTO_def)

text \<open>
  Claim C4. With a positive maximum and a quality on the scale 0 to 100, the image handed
  to the encoder has the size the rule of the specification gives: the comparisons are
  strict and one branch at most applies (width first). A 3000 by 2000 image with maximum
  1000 becomes 1000 by 667; a 1000 by 1000 image is left alone, a 1001 by 1001 image is
  scaled by its height.
\<close>

theorem resize_one_binding_axis:
  assumes "jimp_read env buf = Inr img"
    and "0 < getOptionInt env ''imageMaxWidthHeight''"
    and "0 \<le> quality" and "quality \<le> 100"
  shows "resize env buf quality =
           jimp_getBufferAsync env
             (img\<lparr>bitmap_width :=
                    fst (spec_resized_size (getOptionInt env ''imageMaxWidthHeight'')
                          (bitmap_width img, bitmap_height img)),
                  bitmap_height :=
                    snd (spec_resized_size (getOptionInt env ''imageMaxWidthHeight'')
                          (bitmap_width img, bitmap_height img)),
                  img_quality := quality, img_background := 0xFFFFFFFF\<rparr>)
             jimp_MIME_JPEG
         \<and> spec_resized_size 1000 (3000, 2000) = (1000, 667)
         \<and> spec_resized_size 1000 (1000, 1000) = (1000, 1000)
         \<and> spec_resized_size 1000 (1001, 1001) = (1000, 1000)"
proof -
  let ?m = "getOptionInt env ''imageMaxWidthHeight''"
  let ?w = "bitmap_width img" and ?h = "bitmap_height img"
  have general: "resize env buf quality =
           jimp_getBufferAsync env
             (img\<lparr>bitmap_width := fst (spec_resized_size ?m (?w, ?h)),
                  bitmap_height := snd (spec_resized_size ?m (?w, ?h)),
                  img_quality := quality, img_background := 0xFFFFFFFF\<rparr>)
             jimp_MIME_JPEG"
  proof -
    consider (wide) "int ?w > int ?h \<and> int ?w > ?m"
      | (tall) "\<not> (int ?w > int ?h \<and> int ?w > ?m)" "int ?h > ?m"
      | (small) "\<not> (int ?w > int ?h \<and> int ?w > ?m)" "\<not> int ?h > ?m"
      by blast
    then show ?thesis
    proof cases
      case wide
      then have "0 < ?w" by simp
      then have "js_or_1 (Math_round_div (int ?h * ?m) (int ?w))
          = max 1 (Math_round_div (int ?h * ?m) (int ?w))"
        using assms(2) by (rule_tac js_or_1_nonneg) (rule Math_round_div_nonneg, simp_all)
      with wide assms show ?thesis
        by (simp add: resize_def Let_def spec_resized_size_def jimp_resize_def jimp_AUTO_def
            jimp_quality_def jimp_background_def js_or_1_def [of "getOptionInt env _"])
    next
      case tall
      then have "0 < ?h" using assms(2) by simp
      then have "js_or_1 (Math_round_div (int ?w * ?m) (int ?h))
          = max 1 (Math_round_div (int ?w * ?m) (int ?h))"
        using assms(2) by (rule_tac js_or_1_nonneg) (rule Math_round_div_nonneg, simp_all)
      with tall assms show ?thesis
        by (simp add: resize_def Let_def spec_resized_size_def jimp_resize_def jimp_AUTO_def
            jimp_quality_def jimp_background_def js_or_1_def [of "getOptionInt env _"])
    next
      case small
      with assms show ?thesis
        by (auto simp: resize_def Let_def spec_resized_size_def jimp_quality_def jimp_background_def)
    qed
  qed
  have examples: "spec_resized_size 1000 (3000, 2000) = (1000, 667)"
    "spec_resized_size 1000 (1000, 1000) = (1000, 1000)"
    "spec_resized_size 1000 (1001, 1001) = (1000, 1000)"
    by (simp_all add: spec_resized_size_def Math_round_div_def)
  from general examples show ?thesis by simp
qed

theorem resize_one_binding_axis_witness:
  "jimp_read example_env example_png =
     Inr \<lparr>bitmap_width = 3000, bitmap_height = 2000, bitmap_data = [1, 2, 3, 4],
          img_quality = 100, img_background = 0\<rparr>
   \<and> getOptionInt example_env ''imageMaxWidthHeight'' = 1000
   \<and> resize example_env example_png 75 =
       jimp_getBufferAsync example_env
         \<lparr>bitmap_width = 1000, bitmap_height = 667, bitmap_data = [1, 2, 3, 4],
          img_quality = 75, img_background = 0xFFFFFFFF\<rparr> jimp_MIME_JPEG"
proof -
  have decoded: "jimp_read example_env example_png =
     Inr \<lparr>bitmap_width = 3000, bitmap_height = 2000, bitmap_data = [1, 2, 3, 4],
          img_quality = 100, img_background = 0\<rparr>"
    by (simp add: example_env_def example_png_def)
  have bound: "0 < getOptionInt example_env ''imageMaxWidthHeight''"
    and mx: "getOptionInt example_env ''imageMaxWidthHeight'' = 1000"
    by (simp_all add: example_env_def)
  have size: "spec_resized_size 1000 (3000, 2000) = (1000, 667)"
    by (simp add: spec_resized_size_def Math_round_div_def)
  show ?thesis
    using resize_one_binding_axis [OF decoded bound, of 75]
    by (simp add: decoded mx size)
qed

section \<open>What the detached work leaves alone\<close>

text \<open>
  \<^verbatim>\<open>processImage\<close> only writes to the log, and its result does not depend on the state;
  the continuation writes the MIME type and the content of one note. Neither touches the
  revisions or the queue of pending work.
\<close>

lemma shrinkImage_frame:
  "becca_notes (snd (shrinkImage env buf name s)) = becca_notes s
   \<and> revisions (snd (shrinkImage env buf name s)) = revisions s
   \<and> pending (snd (shrinkImage env buf name s)) = pending s"
  by (simp add: shrinkImage_def log_error_def Let_def split: sum.split)

lemma shrinkImage_fst_state: "fst (shrinkImage env buf name s) = fst (shrinkImage env buf name s')"
  by (simp add: shrinkImage_def Let_def split: sum.split)

lemma processImage_frame:
  "becca_notes (snd (processImage env buf name sw s)) = becca_notes s
   \<and> revisions (snd (processImage env buf name sw s)) = revisions s
   \<and> pending (snd (processImage env buf name sw s)) = pending s"
  using shrinkImage_frame [of env buf name s]
  by (simp add: processImage_def split_beta)

lemma processImage_fst_state:
  "fst (processImage env buf name sw s) = fst (processImage env buf name sw s')"
  using shrinkImage_fst_state [of env buf name s s']
  by (simp add: processImage_def split_beta)

lemma processImage_format:
  "imageFormat (fst (processImage env buf name sw s))
     = getImageType env (buffer (fst (processImage env buf name sw s)))"
  by (simp add: processImage_def split_beta)

lemma commitProcessed_frame:
  "revisions (snd (commitProcessed noteId p s)) = revisions s
   \<and> pending (snd (commitProcessed noteId p s)) = pending s"
  by (simp add: commitProcessed_def sql_transactional_def Note_setContent_def Note_save_def
      Note_set_mime_def update_note_def split: sum.split)


lemma runDetached_frame:
  "revisions (snd (runDetached env d s)) = revisions s
   \<and> pending (snd (runDetached env d s)) = pending s"
  using commitProcessed_frame processImage_frame
  by (simp add: runDetached_def split_beta)

lemma commitProcessed_writes:
  assumes "format_ext (imageFormat p) = Some e" and "becca_notes s noteId = Some n"
  shows "fst (commitProcessed noteId p s) = Inr ()
    \<and> map_option content (becca_notes (snd (commitProcessed noteId p s)) noteId) = Some (buffer p)
    \<and> map_option mime (becca_notes (snd (commitProcessed noteId p s)) noteId)
        = Some (''image/'' @ (if toLowerCase e = ''svg'' then ''svg+xml'' else toLowerCase e))"
  using assms
  by (simp add: commitProcessed_def sql_transactional_def getImageMimeFromExtension_def Let_def
      Note_setContent_def Note_save_def Note_set_mime_def update_note_def)

section \<open>The event loop\<close>

lemma eventLoop_Nil: "pending s = [] \<Longrightarrow> eventLoop env s = []"
  by (subst eventLoop.simps) (simp add: runNextDetached_def)

lemma eventLoop_Cons:
  "pending s = d # ds \<Longrightarrow>
     eventLoop env s = snd (runDetached env d (s\<lparr>pending := ds\<rparr>))
        # eventLoop env (snd (runDetached env d (s\<lparr>pending := ds\<rparr>)))"
  by (subst eventLoop.simps) (simp add: runNextDetached_def split_beta)

lemma eventLoop_revisions:
  "s' \<in> set (eventLoop env s) \<Longrightarrow> revisions s' = revisions s"
proof (induction "pending s" arbitrary: s)
  case Nil
  then have "eventLoop env s = []"
    by (intro eventLoop_Nil) (rule sym)
  with Nil.prems show ?case
    by simp
next
  case (Cons d ds)
  let ?t = "snd (runDetached env d (s\<lparr>pending := ds\<rparr>))"
  have unfold: "eventLoop env s = ?t # eventLoop env ?t"
    by (rule eventLoop_Cons) (rule Cons.hyps(2) [symmetric])
  have rest: "ds = pending ?t" and same: "revisions ?t = revisions s"
    using runDetached_frame [of env d "s\<lparr>pending := ds\<rparr>"] by simp_all
  from Cons.prems unfold have "s' = ?t \<or> s' \<in> set (eventLoop env ?t)"
    by simp
  then show ?case
  proof
    assume "s' = ?t"
    with same show ?thesis by simp
  next
    assume "s' \<in> set (eventLoop env ?t)"
    then have "revisions s' = revisions ?t"
      using rest by (rule Cons.hyps(1) [rotated])
    with same show ?thesis by simp
  qed
qed

lemma eventLoop_single:
  assumes "pending s = [d]"
  shows "eventLoop env s = [snd (runDetached env d (s\<lparr>pending := []\<rparr>))]"
proof -
  have "pending (snd (runDetached env d (s\<lparr>pending := []\<rparr>))) = []"
    using runDetached_frame [of env d "s\<lparr>pending := []\<rparr>"] by simp
  then have "eventLoop env (snd (runDetached env d (s\<lparr>pending := []\<rparr>))) = []"
    by (rule eventLoop_Nil)
  with eventLoop_Cons [OF assms, of env] show ?thesis
    by simp
qed

section \<open>Saving a new image\<close>



text \<open>Without the parent note, \<^verbatim>\<open>saveImage\<close> throws and creates nothing.\<close>

lemma saveImage_missing_parent:
  "becca_notes s0 parentNoteId = None \<Longrightarrow>
     saveImage env parentNoteId uploadBuffer originalName shrinkImageSwitch s0 =
       (Inl (TypeError ''isProtected''),
        s0\<lparr>logs := logs s0 @ [LogInfo (''Saving image '' @ originalName)]\<rparr>)"
  by (simp add: saveImage_def becca_getNote_def log_info_def)

text \<open>
  Claim C9. With the parent note in the store, \<^verbatim>\<open>saveImage\<close> returns the sanitized file
  name, the id of the new note and the url \<open>api/images/{noteId}/{fileName}\<close>. At that
  moment the transformation is still pending, and the new note, created under the given
  parent, has MIME type \<open>unknown\<close> and empty content and is protected exactly when the
  parent is protected and a protected session is available.
\<close>

theorem saveImage_returns_placeholder:
  assumes "becca_notes s0 parentNoteId = Some parentNote"
  shows "fst (saveImage env parentNoteId uploadBuffer originalName shrinkImageSwitch s0) =
           Inr \<lparr>res_fileName = sanitizeFilename env originalName,
                res_note = newNoteId env (becca_notes s0),
                res_noteId = newNoteId env (becca_notes s0),
                res_url = ''api/images/'' @ newNoteId env (becca_notes s0) @ ''/''
                            @ sanitizeFilename env originalName\<rparr>
    \<and> becca_notes (snd (saveImage env parentNoteId uploadBuffer originalName shrinkImageSwitch s0))
          (newNoteId env (becca_notes s0)) =
           Some \<lparr>parentId = parentNoteId, title = sanitizeFilename env originalName,
                 noteType = ''image'', mime = ''unknown'', content = [],
                 isProtected = (isProtected parentNote \<and> isProtectedSessionAvailable env),
                 labels = [(''originalFileName'', originalName)]\<rparr>
    \<and> pending (snd (saveImage env parentNoteId uploadBuffer originalName shrinkImageSwitch s0)) =
           pending s0 @ [\<lparr>d_noteId = newNoteId env (becca_notes s0), d_uploadBuffer = uploadBuffer,
                            d_originalName = originalName,
                            d_shrinkImageSwitch = shrinkImageSwitch\<rparr>]"
  using assms
  by (simp add: saveImage_def becca_getNote_def log_info_def Let_def createNewNote_def
      Note_addLabel_def update_note_def detach_def)

theorem saveImage_returns_placeholder_witness:
  "fst (saveImage example_env ''root'' example_png ''dir/a.png'' True example_state) =
     Inr \<lparr>res_fileName = ''dira.png'', res_note = ''note1'', res_noteId = ''note1'',
          res_url = ''api/images/note1/dira.png''\<rparr>
   \<and> becca_notes (snd (saveImage example_env ''root'' example_png ''dir/a.png'' True example_state))
        ''note1'' =
       Some \<lparr>parentId = ''root'', title = ''dira.png'', noteType = ''image'', mime = ''unknown'',
             content = [], isProtected = True, labels = [(''originalFileName'', ''dir/a.png'')]\<rparr>
   \<and> pending (snd (saveImage example_env ''root'' example_png ''dir/a.png'' True example_state)) =
       [\<lparr>d_noteId = ''note1'', d_uploadBuffer = example_png, d_originalName = ''dir/a.png'',
         d_shrinkImageSwitch = True\<rparr>]"
proof -
  have name: "sanitizeFilename example_env ''dir/a.png'' = ''dira.png''"
    and session: "isProtectedSessionAvailable example_env"
    by (simp_all add: example_env_def)
  show ?thesis
    using saveImage_returns_placeholder [OF example_root, of example_env example_png
        "''dir/a.png''" True]
    by (simp add: name session example_newNoteId example_idle)
qed

section \<open>Updating an image\<close>

text \<open>Without the note, \<^verbatim>\<open>updateImage\<close> throws; nothing is written and nothing is started.\<close>

lemma updateImage_missing_note:
  "becca_notes s0 noteId = None \<Longrightarrow>
     updateImage noteId uploadBuffer originalName s0 =
       (Inl (TypeError ''setLabel''),
        s0\<lparr>logs := logs s0 @ [LogInfo (''Updating image '' @ noteId @ '': '' @ originalName)]\<rparr>)"
  by (simp add: updateImage_def becca_getNote_def log_info_def)

text \<open>
  Claim C6. JavaScript runs \<^verbatim>\<open>updateImage\<close> to completion before any other code sees
  the store, so the states of the update path are the state at its return and the states
  after each detached unit. With the note in the store, the state at the return of
  \<^verbatim>\<open>updateImage\<close> holds the snapshot of the note as it was before the call, the note
  still has its prior content and MIME type, and the unit that will write the new content
  is only pending; every later state still holds that snapshot. So no state shows the
  new content without the snapshot of the prior state.
\<close>

theorem updateImage_snapshot_before_content:
  assumes "becca_notes s0 noteId = Some n"
  shows "fst (updateImage noteId uploadBuffer originalName s0) = Inr ()
    \<and> snapshot_of noteId n \<in> set (revisions (snd (updateImage noteId uploadBuffer originalName s0)))
    \<and> map_option content (becca_notes (snd (updateImage noteId uploadBuffer originalName s0)) noteId)
        = Some (content n)
    \<and> map_option mime (becca_notes (snd (updateImage noteId uploadBuffer originalName s0)) noteId)
        = Some (mime n)
    \<and> pending (snd (updateImage noteId uploadBuffer originalName s0))
        = pending s0 @ [\<lparr>d_noteId = noteId, d_uploadBuffer = uploadBuffer,
                          d_originalName = originalName, d_shrinkImageSwitch = True\<rparr>]
    \<and> (\<forall>s \<in> set (eventLoop env (snd (updateImage noteId uploadBuffer originalName s0))).
          snapshot_of noteId n \<in> set (revisions s))"
proof -
  let ?s1 = "snd (updateImage noteId uploadBuffer originalName s0)"
  have sync: "fst (updateImage noteId uploadBuffer originalName s0) = Inr ()"
    using assms by (simp add: updateImage_def becca_getNote_def log_info_def Let_def)
  have snap: "snapshot_of noteId n \<in> set (revisions ?s1)"
    using assms
    by (simp add: updateImage_def becca_getNote_def log_info_def Let_def detach_def
        Note_setLabel_def update_note_def protectNoteRevisions_def createNoteRevision_def
        snapshot_of_def)
  have old: "map_option content (becca_notes ?s1 noteId) = Some (content n)"
    "map_option mime (becca_notes ?s1 noteId) = Some (mime n)"
    using assms
    by (simp_all add: updateImage_def becca_getNote_def log_info_def Let_def detach_def
        Note_setLabel_def update_note_def protectNoteRevisions_def createNoteRevision_def)
  have queued: "pending ?s1 = pending s0 @ [\<lparr>d_noteId = noteId, d_uploadBuffer = uploadBuffer,
                          d_originalName = originalName, d_shrinkImageSwitch = True\<rparr>]"
    using assms
    by (simp add: updateImage_def becca_getNote_def log_info_def Let_def detach_def
        Note_setLabel_def update_note_def protectNoteRevisions_def createNoteRevision_def)
  have later: "\<forall>s \<in> set (eventLoop env ?s1). snapshot_of noteId n \<in> set (revisions s)"
  proof
    fix s
    assume "s \<in> set (eventLoop env ?s1)"
    then have "revisions s = revisions ?s1"
      by (rule eventLoop_revisions)
    with snap show "snapshot_of noteId n \<in> set (revisions s)"
      by simp
  qed
  from sync snap old queued later show ?thesis
    by (intro conjI)
qed

theorem updateImage_snapshot_before_content_witness:
  "\<lparr>rev_noteId = ''img1'', rev_title = ''old.gif'', rev_mime = ''image/gif'',
     rev_content = [0x47, 0x49, 0x46, 0x38], rev_isProtected = False\<rparr>
     \<in> set (revisions (snd (updateImage ''img1'' example_png ''new.png'' example_state)))
   \<and> map_option content
        (becca_notes (snd (updateImage ''img1'' example_png ''new.png'' example_state)) ''img1'')
       = Some [0x47, 0x49, 0x46, 0x38]
   \<and> map (\<lambda>s. map_option content (becca_notes s ''img1''))
        (eventLoop example_env (snd (updateImage ''img1'' example_png ''new.png'' example_state)))
       = [Some [0xFF, 0xD8, 0xFF]]
   \<and> \<lparr>rev_noteId = ''img1'', rev_title = ''old.gif'', rev_mime = ''image/gif'',
       rev_content = [0x47, 0x49, 0x46, 0x38], rev_isProtected = False\<rparr>
     \<in> set (revisions (last (eventLoop example_env
           (snd (updateImage ''img1'' example_png ''new.png'' example_state)))))"
proof -
  let ?s1 = "snd (updateImage ''img1'' example_png ''new.png'' example_state)"
  let ?d = "\<lparr>d_noteId = ''img1'', d_uploadBuffer = example_png, d_originalName = ''new.png'',
             d_shrinkImageSwitch = True\<rparr>"
  let ?run = "processImage example_env example_png ''new.png'' True (?s1\<lparr>pending := []\<rparr>)"
  note claim = updateImage_snapshot_before_content [OF example_img1, of example_png "''new.png''"
      example_env]
  have queue: "pending ?s1 = [?d]"
    using claim by (simp add: example_idle)
  have loop: "eventLoop example_env ?s1 = [snd (runDetached example_env ?d (?s1\<lparr>pending := []\<rparr>))]"
    by (rule eventLoop_single [OF queue])
  obtain n where present: "becca_notes ?s1 ''img1'' = Some n"
    using claim by auto
  have store: "becca_notes (snd ?run) ''img1'' = Some n"
    using processImage_frame [of example_env example_png "''new.png''" True "?s1\<lparr>pending := []\<rparr>"]
      present by simp
  have ext: "format_ext (imageFormat (fst ?run)) = Some ''jpg''"
    and buf: "buffer (fst ?run) = [0xFF, 0xD8, 0xFF]"
    by (simp_all add: example_processImage_png)
  have written: "map_option content
      (becca_notes (snd (runDetached example_env ?d (?s1\<lparr>pending := []\<rparr>))) ''img1'')
      = Some [0xFF, 0xD8, 0xFF]"
    using commitProcessed_writes [OF ext store] buf
    by (simp add: runDetached_def split_beta)
  show ?thesis
    using claim by (simp add: loop written snapshot_of_def)
qed

section \<open>The default format and the commit\<close>








end
